theory Spec2Isabelle
  imports Complex_Main
begin

section \<open>The order service of the pizza shop\<close>

text \<open>
  This theory embeds \<^verbatim>\<open>app/api/v1/endpoints/order/crud.py\<close>: the functions that create,
  read and delete orders, attach pizzas and beverage quantities to an order, and compute
  the price of an order. Each function takes a SQLAlchemy session \<^verbatim>\<open>db\<close>; here the
  session is the committed content of the tables, passed in and returned.

  Every function of the module commits before it returns (or changes nothing), so one
  store value per call is enough. The \<^verbatim>\<open>logging\<close> calls are left out, except where
  evaluating their arguments can fail.
\<close>

subsection \<open>Exceptions\<close>

text \<open>The exceptions that the module itself can raise.\<close>

datatype error = AttributeError | OverflowError

subsection \<open>Floating-point numbers\<close>

text \<open>
  A Python \<^verbatim>\<open>float\<close> is an IEEE 754 binary64 number: a finite number with a significand
  of 53 bits, an infinity, or a NaN. A finite number is the rational it denotes; the two
  zeros are one value, as they are for \<^verbatim>\<open>==\<close>. \<open>Finite x\<close> stands for a float if
  \<open>x\<close> is such a number, that is if rounding leaves it as it is; the prices in the tables
  are such values.
\<close>

datatype double = Finite rat | PosInf | NegInf | NaN

text \<open>Rounding to the nearest integer, a tie to the even one.\<close>

definition round_half_even :: "rat \<Rightarrow> int" where
  "round_half_even x =
     (let n = \<lfloor>x\<rfloor>; r = x - of_int n
      in if r < 1 / 2 then n
         else if 1 / 2 < r then n + 1
         else if even n then n else n + 1)"

text \<open>
  The distance between neighbouring doubles around \<open>x\<close>: \<open>2 powi (e - 52)\<close> where
  \<open>2 powi e \<le> \<bar>x\<bar> < 2 powi (e + 1)\<close>, for \<open>e\<close> from \<open>-1022\<close> to \<open>1023\<close>, and
  \<open>2 powi (-1074)\<close> below. The search goes down from the largest exponent.
\<close>

fun quantum_from :: "nat \<Rightarrow> rat \<Rightarrow> rat" where
  "quantum_from 0 x = 2 powi (- 1074)"
| "quantum_from (Suc n) x =
     (if 2 powi (int (Suc n) - 1022) \<le> \<bar>x\<bar>
      then 2 powi (int (Suc n) - 1074)
      else quantum_from n x)"

definition quantum :: "rat \<Rightarrow> rat" where
  "quantum x = quantum_from 2045 x"

text \<open>
  The result of an arithmetic operation is the exact result rounded to the nearest double,
  a tie to the even significand; a result that rounds to \<open>2 ^ 1024\<close> or beyond is an
  infinity.
\<close>

definition round_double :: "rat \<Rightarrow> double" where
  "round_double x =
     (let y = of_int (round_half_even (x / quantum x)) * quantum x
      in if 2 ^ 1024 \<le> y then PosInf
         else if y \<le> - (2 ^ 1024) then NegInf
         else Finite y)"

text \<open>\<^verbatim>\<open>a + b\<close> on two floats.\<close>

fun fadd :: "double \<Rightarrow> double \<Rightarrow> double" where
  "fadd (Finite x) (Finite y) = round_double (x + y)"
| "fadd NaN b = NaN"
| "fadd a NaN = NaN"
| "fadd PosInf NegInf = NaN"
| "fadd NegInf PosInf = NaN"
| "fadd PosInf b = PosInf"
| "fadd a PosInf = PosInf"
| "fadd NegInf b = NegInf"
| "fadd a NegInf = NegInf"

fun sign_of :: "double \<Rightarrow> int" where
  "sign_of (Finite x) = (if x = 0 then 0 else if 0 < x then 1 else - 1)"
| "sign_of PosInf = 1"
| "sign_of NegInf = - 1"
| "sign_of NaN = 0"

text \<open>\<^verbatim>\<open>a * b\<close> on two floats; an infinity times zero is a NaN.\<close>

fun fmul :: "double \<Rightarrow> double \<Rightarrow> double" where
  "fmul (Finite x) (Finite y) = round_double (x * y)"
| "fmul NaN b = NaN"
| "fmul a NaN = NaN"
| "fmul a b =
     (if sign_of a * sign_of b = 0 then NaN
      else if 0 < sign_of a * sign_of b then PosInf else NegInf)"

text \<open>
  The conversion of an \<^verbatim>\<open>int\<close> to a \<^verbatim>\<open>float\<close> rounds in the same way, and raises
  \<^verbatim>\<open>OverflowError\<close> where the result is no finite number. \<^verbatim>\<open>a * n\<close> on a float and an
  \<^verbatim>\<open>int\<close> converts the \<^verbatim>\<open>int\<close> first.
\<close>

definition float_of_int :: "int \<Rightarrow> error + double" where
  "float_of_int n =
     (case round_double (of_int n) of
        Finite y \<Rightarrow> Inr (Finite y)
      | PosInf \<Rightarrow> Inl OverflowError
      | NegInf \<Rightarrow> Inl OverflowError
      | NaN \<Rightarrow> Inl OverflowError)"

definition fmul_int :: "double \<Rightarrow> int \<Rightarrow> error + double" where
  "fmul_int a n =
     (case float_of_int n of
        Inl e \<Rightarrow> Inl e
      | Inr b \<Rightarrow> Inr (fmul a b))"



subsection \<open>Rows and tables\<close>

text \<open>
  Identifiers are UUIDs; only equality and the drawing of a new one matter, so they are
  numbers. Prices are \<^verbatim>\<open>float\<close> in the schemas (\<^verbatim>\<open>PizzaTypeBaseSchema.price\<close>), that is
  \<open>double\<close> values.
\<close>

type_synonym uuid = nat

text \<open>
  Modelled from the spec: \<^verbatim>\<open>OrderStatus\<close> is declared in \<^verbatim>\<open>app.database.models\<close>. It is
  an enumeration with the initial value \<^verbatim>\<open>TRANSMITTED\<close>; its further members are kept
  apart by their names.
\<close>

datatype order_status = TRANSMITTED | OTHER_STATUS string

text \<open>
  Modelled from the spec: the mapped classes \<^verbatim>\<open>Order\<close>, \<^verbatim>\<open>Pizza\<close>, \<^verbatim>\<open>PizzaType\<close>,
  \<^verbatim>\<open>Beverage\<close>, \<^verbatim>\<open>OrderBeverageQuantity\<close> and \<^verbatim>\<open>Address\<close> are declared in
  \<^verbatim>\<open>app.database.models\<close>. The records carry the columns that the module reads or
  writes. A relationship attribute is its foreign-key column: \<^verbatim>\<open>order.address\<close> is
  \<open>o_address_id\<close>, membership in \<^verbatim>\<open>order.pizzas\<close> is \<open>p_order_id\<close>, membership in
  \<^verbatim>\<open>order.beverages\<close> is \<open>obq_order_id\<close>. The content of an address is a type parameter.
\<close>

record 'd address =
  a_id :: uuid
  a_data :: 'd

record order =
  o_id :: uuid
  o_user_id :: uuid
  o_address_id :: "uuid option"
  o_order_status :: order_status

record pizza_type =
  pt_id :: uuid
  pt_name :: string
  pt_price :: double
  pt_description :: string
  pt_dough_id :: uuid

record pizza =
  p_id :: uuid
  p_pizza_type_id :: "uuid option"
  p_order_id :: "uuid option"

record beverage =
  b_id :: uuid
  b_price :: double

record order_beverage_quantity =
  obq_order_id :: uuid
  obq_beverage_id :: uuid
  obq_quantity :: int

record 'd database =
  addresses :: "'d address list"
  orders :: "order list"
  pizza_types :: "pizza_type list"
  pizzas :: "pizza list"
  beverages :: "beverage list"
  order_beverage_quantities :: "order_beverage_quantity list"

text \<open>The input schemas of \<^verbatim>\<open>app.api.v1.endpoints.order.schemas\<close>.\<close>

record 'd order_create_schema =
  s_user_id :: uuid
  s_address :: 'd

record order_beverage_quantity_create_schema =
  s_quantity :: int
  s_beverage_id :: uuid

text \<open>
  Modelled from the spec: a new row gets its identifier from a UUID default of the mapped
  class. The model draws an identifier that the table does not hold yet.
\<close>

definition new_uuid :: "uuid list \<Rightarrow> uuid" where
  "new_uuid used = Suc (fold max used 0)"

subsection \<open>Orders\<close>

text \<open>
  Modelled from the spec: \<^verbatim>\<open>create_address\<close> lives in
  \<^verbatim>\<open>app/api/v1/endpoints/order/address/crud.py\<close>. It creates an Address from the
  address data, stores it and returns it.
\<close>

definition create_address :: "'d \<Rightarrow> 'd database \<Rightarrow> 'd address \<times> 'd database" where
  "create_address schema db =
     (let entity = \<lparr>a_id = new_uuid (map a_id (addresses db)), a_data = schema\<rparr>
      in (entity, db\<lparr>addresses := addresses db @ [entity]\<rparr>))"

text \<open>
  \<^verbatim>\<open>
  def create_order(schema: OrderCreateSchema, db: Session):
      address = create_address(schema.address, db)
      order = Order(user_id=schema.user_id)
      order.address = address
      order.order_status = OrderStatus.TRANSMITTED
      db.add(order)
      db.commit()
      return order
  \<close>
\<close>

definition create_order :: "'d order_create_schema \<Rightarrow> 'd database \<Rightarrow> order \<times> 'd database" where
  "create_order schema db =
     (case create_address (s_address schema) db of
        (address, db1) \<Rightarrow>
          (let order = \<lparr>o_id = new_uuid (map o_id (orders db1)), o_user_id = s_user_id schema,
                        o_address_id = None, o_order_status = TRANSMITTED\<rparr>;
               order = order\<lparr>o_address_id := Some (a_id address)\<rparr>;
               order = order\<lparr>o_order_status := TRANSMITTED\<rparr>
           in (order, db1\<lparr>orders := orders db1 @ [order]\<rparr>)))"

text \<open>
  \<^verbatim>\<open>
  def get_order_by_id(order_id: uuid.UUID, db: Session):
      entity = db.query(Order).filter(Order.id == order_id).first()
      if not entity:
          logging.error(...)
      return entity
  \<close>
  \<^verbatim>\<open>first()\<close> gives the first row of the result, or \<^verbatim>\<open>None\<close>.
\<close>

definition get_order_by_id :: "uuid \<Rightarrow> 'd database \<Rightarrow> order option" where
  "get_order_by_id order_id db = find (\<lambda>r. o_id r = order_id) (orders db)"

text \<open>
  \<^verbatim>\<open>
  def get_all_orders(db: Session, status: Optional[OrderStatus] = None):
      if status:
          return db.query(Order).filter(Order.order_status == status).all()
      return db.query(Order).all()
  \<close>
  A member of the enumeration is a true value, so the test separates \<^verbatim>\<open>None\<close> from a
  given status.
\<close>

definition get_all_orders :: "'d database \<Rightarrow> order_status option \<Rightarrow> order list" where
  "get_all_orders db status =
     (case status of
        Some s \<Rightarrow> filter (\<lambda>r. o_order_status r = s) (orders db)
      | None \<Rightarrow> orders db)"

text \<open>
  Modelled from the spec: deleting an order cascades to its pizzas and its beverage rows
  (the cascade is configured in \<^verbatim>\<open>app.database.models\<close>). The row is deleted by its
  primary key.
\<close>

definition db_delete_order :: "order \<Rightarrow> 'd database \<Rightarrow> 'd database" where
  "db_delete_order entity db =
     db\<lparr>orders := filter (\<lambda>r. o_id r \<noteq> o_id entity) (orders db),
        pizzas := filter (\<lambda>p. p_order_id p \<noteq> Some (o_id entity)) (pizzas db),
        order_beverage_quantities :=
          filter (\<lambda>q. obq_order_id q \<noteq> o_id entity) (order_beverage_quantities db)\<rparr>"

text \<open>
  \<^verbatim>\<open>
  def delete_order_by_id(order_id: uuid.UUID, db: Session):
      entity = get_order_by_id(order_id, db)
      if entity:
          db.delete(entity)
          db.commit()
      else:
          logging.error(...)
  \<close>
\<close>

definition delete_order_by_id :: "uuid \<Rightarrow> 'd database \<Rightarrow> 'd database" where
  "delete_order_by_id order_id db =
     (case get_order_by_id order_id db of
        Some entity \<Rightarrow> db_delete_order entity db
      | None \<Rightarrow> db)"

subsection \<open>Pizzas of an order\<close>

text \<open>
  \<^verbatim>\<open>
  def create_pizza(pizza_type: PizzaType, db: Session):
      entity = Pizza()
      if pizza_type:
          entity.pizza_type_id = pizza_type.id
      db.add(entity)
      db.commit()
      logging.info('Pizza created with type ID {}'.format(pizza_type.id))
      return entity
  \<close>
  The argument may be \<^verbatim>\<open>None\<close>. The message of the last \<^verbatim>\<open>logging\<close> call reads
  \<^verbatim>\<open>pizza_type.id\<close>, which raises \<^verbatim>\<open>AttributeError\<close> on \<^verbatim>\<open>None\<close>, after the commit.
\<close>

definition create_pizza ::
    "pizza_type option \<Rightarrow> 'd database \<Rightarrow> (error + pizza) \<times> 'd database" where
  "create_pizza pizza_type db =
     (let entity = \<lparr>p_id = new_uuid (map p_id (pizzas db)), p_pizza_type_id = None,
                    p_order_id = None\<rparr>;
          entity = (case pizza_type of
                      Some t \<Rightarrow> entity\<lparr>p_pizza_type_id := Some (pt_id t)\<rparr>
                    | None \<Rightarrow> entity);
          db1 = db\<lparr>pizzas := pizzas db @ [entity]\<rparr>
      in case pizza_type of
           None \<Rightarrow> (Inl AttributeError, db1)
         | Some t \<Rightarrow> (Inr entity, db1))"

text \<open>
  \<^verbatim>\<open>
  def add_pizza_to_order(order: Order, pizza_type: PizzaType, db: Session):
      pizza = create_pizza(pizza_type, db)
      order.pizzas.append(pizza)
      db.commit()
      db.refresh(order)
      return pizza
  \<close>
  The order is a row loaded from the store, known by its primary key. Appending to
  \<^verbatim>\<open>order.pizzas\<close> sets the order reference of the pizza, and the commit writes it to the
  row with the pizza's primary key.
\<close>

definition add_pizza_to_order ::
    "order \<Rightarrow> pizza_type option \<Rightarrow> 'd database \<Rightarrow> (error + pizza) \<times> 'd database" where
  "add_pizza_to_order order pizza_type db =
     (case create_pizza pizza_type db of
        (Inl e, db1) \<Rightarrow> (Inl e, db1)
      | (Inr pizza, db1) \<Rightarrow>
          (Inr (pizza\<lparr>p_order_id := Some (o_id order)\<rparr>),
           db1\<lparr>pizzas := map (\<lambda>p. if p_id p = p_id pizza
                                   then p\<lparr>p_order_id := Some (o_id order)\<rparr> else p)
                              (pizzas db1)\<rparr>))"

text \<open>
  \<^verbatim>\<open>
  def delete_pizza_from_order(order: Order, pizza_id: uuid.UUID, db: Session):
      entity = db.query(Pizza).filter(Pizza.order_id == order.id, Pizza.id == pizza_id).first()
      if entity:
          db.delete(entity)
          db.commit()
          return True
      else:
          return False
  \<close>
\<close>

definition delete_pizza_from_order :: "order \<Rightarrow> uuid \<Rightarrow> 'd database \<Rightarrow> bool \<times> 'd database" where
  "delete_pizza_from_order order pizza_id db =
     (case find (\<lambda>p. p_order_id p = Some (o_id order) \<and> p_id p = pizza_id) (pizzas db) of
        Some entity \<Rightarrow> (True, db\<lparr>pizzas := filter (\<lambda>p. p_id p \<noteq> p_id entity) (pizzas db)\<rparr>)
      | None \<Rightarrow> (False, db))"

subsection \<open>Beverages of an order\<close>

text \<open>
  \<^verbatim>\<open>
  def create_beverage_quantity(order: Order, schema: OrderBeverageQuantityCreateSchema, db: Session):
      entity = OrderBeverageQuantity(**schema.dict())
      order.beverages.append(entity)
      db.commit()
      db.refresh(order)
      return entity
  \<close>
\<close>

definition create_beverage_quantity ::
    "order \<Rightarrow> order_beverage_quantity_create_schema \<Rightarrow> 'd database
       \<Rightarrow> order_beverage_quantity \<times> 'd database" where
  "create_beverage_quantity order schema db =
     (let entity = \<lparr>obq_order_id = o_id order, obq_beverage_id = s_beverage_id schema,
                    obq_quantity = s_quantity schema\<rparr>
      in (entity, db\<lparr>order_beverage_quantities := order_beverage_quantities db @ [entity]\<rparr>))"

text \<open>
  \<^verbatim>\<open>
  def update_beverage_quantity_of_order(order_id, beverage_id, new_quantity: int, db: Session):
      order_beverage = db.query(OrderBeverageQuantity).filter(
          order_id == OrderBeverageQuantity.order_id,
          beverage_id == OrderBeverageQuantity.beverage_id).first()
      if order_beverage:
          setattr(order_beverage, 'quantity', new_quantity)
          db.commit()
          db.refresh(order_beverage)
          return order_beverage
      else:
          return None
  \<close>
  The loaded entity is the first row with the two keys; \<open>set_quantity_of_first\<close> writes
  the new quantity to that row of the table.
\<close>

fun set_quantity_of_first ::
    "uuid \<Rightarrow> uuid \<Rightarrow> int \<Rightarrow> order_beverage_quantity list \<Rightarrow> order_beverage_quantity list" where
  "set_quantity_of_first order_id beverage_id new_quantity [] = []"
| "set_quantity_of_first order_id beverage_id new_quantity (q # qs) =
     (if order_id = obq_order_id q \<and> beverage_id = obq_beverage_id q
      then q\<lparr>obq_quantity := new_quantity\<rparr> # qs
      else q # set_quantity_of_first order_id beverage_id new_quantity qs)"

definition update_beverage_quantity_of_order ::
    "uuid \<Rightarrow> uuid \<Rightarrow> int \<Rightarrow> 'd database \<Rightarrow> order_beverage_quantity option \<times> 'd database" where
  "update_beverage_quantity_of_order order_id beverage_id new_quantity db =
     (case find (\<lambda>q. order_id = obq_order_id q \<and> beverage_id = obq_beverage_id q)
                (order_beverage_quantities db) of
        Some order_beverage \<Rightarrow>
          (Some (order_beverage\<lparr>obq_quantity := new_quantity\<rparr>),
           db\<lparr>order_beverage_quantities :=
                set_quantity_of_first order_id beverage_id new_quantity
                  (order_beverage_quantities db)\<rparr>)
      | None \<Rightarrow> (None, db))"

subsection \<open>The price of an order\<close>

text \<open>
  \<^verbatim>\<open>
  def get_price_of_order(order_id: uuid.UUID, db: Session):
      price_beverage: float = 0
      for row in db.query(Beverage.price, OrderBeverageQuantity.quantity) \
              .join(OrderBeverageQuantity) \
              .join(Order) \
              .filter(Order.id == order_id):
          price_beverage += (row.price * row.quantity)

      price_pizza = db.query(func.sum(PizzaType.price)) \
          .join(Pizza) \
          .join(Order) \
          .filter(Order.id == order_id).first()[0]

      if price_pizza is None:
          return price_beverage

      total_price = price_pizza + price_beverage
      return total_price
  \<close>
  Both queries are inner joins along the foreign keys, written here as the rows of the
  product of the tables that satisfy the join conditions and the filter.
\<close>

definition beverage_query :: "uuid \<Rightarrow> 'd database \<Rightarrow> (double \<times> int) list" where
  "beverage_query order_id db =
     [(b_price b, obq_quantity q).
        b \<leftarrow> beverages db,
        q \<leftarrow> order_beverage_quantities db, obq_beverage_id q = b_id b,
        r \<leftarrow> orders db, obq_order_id q = o_id r,
        o_id r = order_id]"

definition pizza_query :: "uuid \<Rightarrow> 'd database \<Rightarrow> double list" where
  "pizza_query order_id db =
     [pt_price t.
        t \<leftarrow> pizza_types db,
        p \<leftarrow> pizzas db, p_pizza_type_id p = Some (pt_id t),
        r \<leftarrow> orders db, p_order_id p = Some (o_id r),
        o_id r = order_id]"

text \<open>
  Modelled from the spec: the price columns are declared in \<^verbatim>\<open>app.database.models\<close>; a
  price is a floating-point value. The SQL aggregate \<^verbatim>\<open>SUM\<close> over no rows is \<^verbatim>\<open>NULL\<close>;
  over the rows of a floating-point column the store starts with the first value and adds
  the others in turn, in double precision. An aggregate query without grouping has exactly
  one result row, so \<^verbatim>\<open>first()[0]\<close> is that value.
\<close>

definition func_sum :: "double list \<Rightarrow> double option" where
  "func_sum rows =
     (case rows of
        [] \<Rightarrow> None
      | x # xs \<Rightarrow> Some (fold (\<lambda>y acc. fadd acc y) xs x))"

text \<open>
  The loop over the rows of the beverage query. The variable starts as the \<^verbatim>\<open>int\<close> 0,
  which the first addition converts to the float zero; both are \<open>Finite 0\<close>.
\<close>

fun price_beverage_loop :: "(double \<times> int) list \<Rightarrow> double \<Rightarrow> error + double" where
  "price_beverage_loop [] price_beverage = Inr price_beverage"
| "price_beverage_loop (row # rows) price_beverage =
     (case fmul_int (fst row) (snd row) of
        Inl e \<Rightarrow> Inl e
      | Inr v \<Rightarrow> price_beverage_loop rows (fadd price_beverage v))"

definition price_beverage :: "uuid \<Rightarrow> 'd database \<Rightarrow> error + double" where
  "price_beverage order_id db =
     price_beverage_loop (beverage_query order_id db) (Finite 0)"

definition price_pizza :: "uuid \<Rightarrow> 'd database \<Rightarrow> double option" where
  "price_pizza order_id db = func_sum (pizza_query order_id db)"

definition get_price_of_order :: "uuid \<Rightarrow> 'd database \<Rightarrow> error + double" where
  "get_price_of_order order_id db =
     (case price_beverage order_id db of
        Inl e \<Rightarrow> Inl e
      | Inr b \<Rightarrow>
          (case price_pizza order_id db of
             None \<Rightarrow> Inr b
           | Some s \<Rightarrow> Inr (fadd s b)))"

subsection \<open>Relationships of the data model\<close>

text \<open>
  The collection \<^verbatim>\<open>order.pizzas\<close> holds the pizza rows that reference the order, and
  \<^verbatim>\<open>order.beverages\<close> the beverage-quantity rows that do. \<^verbatim>\<open>pizza.pizza_type\<close> and the
  beverage of a beverage-quantity row are found through their foreign keys.
\<close>

definition order_pizzas :: "uuid \<Rightarrow> 'd database \<Rightarrow> pizza list" where
  "order_pizzas order_id db = filter (\<lambda>p. p_order_id p = Some order_id) (pizzas db)"




subsection \<open>Example stores\<close>

text \<open>
  A shop with the pizza type Margherita at 8 and the beverage Cola at 1.50, and the store
  after the scenario of the specification: user 1 creates an order, a Margherita is added
  to it, then two Cola.
\<close>

definition margherita :: pizza_type where
  "margherita = \<lparr>pt_id = 1, pt_name = ''Margherita'', pt_price = Finite 8,
                  pt_description = ''Tomato and mozzarella'', pt_dough_id = 1\<rparr>"

definition cola :: beverage where
  "cola = \<lparr>b_id = 1, b_price = Finite (3 / 2)\<rparr>"

definition shop_store :: "string database" where
  "shop_store = \<lparr>addresses = [], orders = [], pizza_types = [margherita], pizzas = [],
                  beverages = [cola], order_beverage_quantities = []\<rparr>"

definition scenario_order :: order where
  "scenario_order =
     fst (create_order \<lparr>s_user_id = 1, s_address = ''1 Main Street''\<rparr> shop_store)"

definition scenario_store :: "string database" where
  "scenario_store =
     (let db1 = snd (create_order \<lparr>s_user_id = 1, s_address = ''1 Main Street''\<rparr> shop_store);
          db2 = snd (add_pizza_to_order scenario_order (Some margherita) db1);
          db3 = snd (create_beverage_quantity scenario_order
                       \<lparr>s_quantity = 2, s_beverage_id = 1\<rparr> db2)
      in db3)"


section \<open>Properties\<close>

subsection \<open>New identifiers\<close>

lemma le_fold_max: "a \<le> fold max used (a::nat)"
proof (induction used arbitrary: a)
  case Nil
  show ?case by simp
next
  case (Cons x xs)
  have "a \<le> max x a" by simp
  also have "\<dots> \<le> fold max xs (max x a)" by (rule Cons.IH)
  finally show ?case by simp
qed

lemma member_le_fold_max: "x \<in> set used \<Longrightarrow> x \<le> fold max used (a::nat)"
proof (induction used arbitrary: a)
  case Nil
  then show ?case by simp
next
  case (Cons y ys)
  show ?case
  proof (cases "x = y")
    case True
    have "x \<le> max y a" using True by simp
    also have "\<dots> \<le> fold max ys (max y a)" by (rule le_fold_max)
    finally show ?thesis by simp
  next
    case False
    with Cons.prems have "x \<in> set ys" by simp
    then show ?thesis by (simp add: Cons.IH)
  qed
qed

lemma new_uuid_fresh: "new_uuid used \<notin> set used"
proof
  assume "new_uuid used \<in> set used"
  then have "new_uuid used \<le> fold max used 0" by (rule member_le_fold_max)
  then show False by (simp add: new_uuid_def)
qed

lemma new_uuid_fresh_row: "r \<in> set rows \<Longrightarrow> k r \<noteq> new_uuid (map k rows)"
  using new_uuid_fresh [of "map k rows"] by (auto simp: image_iff)

subsection \<open>The example stores, evaluated\<close>

lemma scenario_order_eq:
  "scenario_order = \<lparr>o_id = 1, o_user_id = 1, o_address_id = Some 1,
                      o_order_status = TRANSMITTED\<rparr>"
  by (simp add: scenario_order_def create_order_def create_address_def shop_store_def
      new_uuid_def Let_def)

lemma scenario_store_eq:
  "scenario_store =
     \<lparr>addresses = [\<lparr>a_id = 1, a_data = ''1 Main Street''\<rparr>],
      orders = [\<lparr>o_id = 1, o_user_id = 1, o_address_id = Some 1,
                 o_order_status = TRANSMITTED\<rparr>],
      pizza_types = [margherita],
      pizzas = [\<lparr>p_id = 1, p_pizza_type_id = Some 1, p_order_id = Some 1\<rparr>],
      beverages = [cola],
      order_beverage_quantities =
        [\<lparr>obq_order_id = 1, obq_beverage_id = 1, obq_quantity = 2\<rparr>]\<rparr>"
  by (simp add: scenario_store_def scenario_order_eq create_order_def create_address_def
      add_pizza_to_order_def create_pizza_def create_beverage_quantity_def shop_store_def
      margherita_def new_uuid_def Let_def)

subsection \<open>Lookups in a table\<close>

lemma find_snoc_new: "\<forall>x\<in>set xs. \<not> P x \<Longrightarrow> P e \<Longrightarrow> find P (xs @ [e]) = Some e"
  by (induction xs) simp_all

lemma get_order_by_id_after_delete:
  "get_order_by_id order_id db = Some entity \<Longrightarrow>
     get_order_by_id order_id (db_delete_order entity db) = None"
  by (auto simp: get_order_by_id_def db_delete_order_def find_None_iff find_Some_iff)

lemma set_quantity_of_first_nth:
  "i < length qs \<Longrightarrow>
   order_id = obq_order_id (qs ! i) \<and> beverage_id = obq_beverage_id (qs ! i) \<Longrightarrow>
   \<forall>j<i. \<not> (order_id = obq_order_id (qs ! j) \<and> beverage_id = obq_beverage_id (qs ! j)) \<Longrightarrow>
   set_quantity_of_first order_id beverage_id new_quantity qs =
     qs[i := (qs ! i)\<lparr>obq_quantity := new_quantity\<rparr>]"
proof (induction qs arbitrary: i)
  case Nil
  then show ?case by simp
next
  case (Cons q qs)
  show ?case
  proof (cases i)
    case 0
    with Cons.prems show ?thesis by simp
  next
    case (Suc k)
    with Cons.prems(3) have head: "\<not> (order_id = obq_order_id q \<and> beverage_id = obq_beverage_id q)"
      by fastforce
    have "set_quantity_of_first order_id beverage_id new_quantity qs =
            qs[k := (qs ! k)\<lparr>obq_quantity := new_quantity\<rparr>]"
    proof (rule Cons.IH)
      show "k < length qs" using Cons.prems(1) Suc by simp
      show "order_id = obq_order_id (qs ! k) \<and> beverage_id = obq_beverage_id (qs ! k)"
        using Cons.prems(2) Suc by simp
      show "\<forall>j<k. \<not> (order_id = obq_order_id (qs ! j) \<and> beverage_id = obq_beverage_id (qs ! j))"
        using Cons.prems(3) Suc by fastforce
    qed
    moreover from head have "set_quantity_of_first order_id beverage_id new_quantity (q # qs) =
        q # set_quantity_of_first order_id beverage_id new_quantity qs"
      by auto
    ultimately show ?thesis using Suc by simp
  qed
qed

subsection \<open>Rounding\<close>



















subsection \<open>Sums over joined tables\<close>














lemma pizza_query_Nil:
  "(\<forall>p\<in>set (pizzas db). p_order_id p \<noteq> Some order_id) \<or> order_id \<notin> o_id ` set (orders db)
     \<Longrightarrow> pizza_query order_id db = []"
  by (auto simp: pizza_query_def)

lemma beverage_query_Nil:
  "(\<forall>q\<in>set (order_beverage_quantities db). obq_order_id q \<noteq> order_id) \<or>
     order_id \<notin> o_id ` set (orders db)
     \<Longrightarrow> beverage_query order_id db = []"
  by (auto simp: beverage_query_def)

section \<open>The claims\<close>

subsection \<open>The price of an order\<close>




text \<open>
  C10: if no pizza row and no beverage-quantity row carries the order id, the function
  returns the number 0 and raises nothing; so it does for an id that no order has.
\<close>

theorem get_price_of_order_no_rows:
  "((\<forall>p\<in>set (pizzas db). p_order_id p \<noteq> Some order_id) \<and>
    (\<forall>q\<in>set (order_beverage_quantities db). obq_order_id q \<noteq> order_id)
      \<longrightarrow> get_price_of_order order_id db = Inr (Finite 0)) \<and>
   (order_id \<notin> o_id ` set (orders db) \<longrightarrow> get_price_of_order order_id db = Inr (Finite 0))"
  by (simp add: get_price_of_order_def price_beverage_def price_pizza_def func_sum_def
      pizza_query_Nil beverage_query_Nil)

theorem get_price_of_order_no_rows_witness:
  "get_price_of_order 2 scenario_store = Inr (Finite 0)"
  using get_price_of_order_no_rows [of scenario_store 2]
  by (simp add: scenario_store_eq)

subsection \<open>Creating and finding orders\<close>

text \<open>
  C2: the order that \<open>create_order\<close> returns has the status \<open>TRANSMITTED\<close> and the user
  of the schema, it references an address, which is the row that holds the address data of
  the schema, and it is the last row of the order table, found again under its identifier.
\<close>

theorem create_order_transmitted:
  "create_order schema db = (order, db') \<Longrightarrow>
     o_order_status order = TRANSMITTED \<and>
     o_user_id order = s_user_id schema \<and>
     (\<exists>i. o_address_id order = Some i \<and>
          find (\<lambda>a. a_id a = i) (addresses db') = Some \<lparr>a_id = i, a_data = s_address schema\<rparr>) \<and>
     orders db' = orders db @ [order] \<and>
     get_order_by_id (o_id order) db' = Some order"
proof -
  assume run: "create_order schema db = (order, db')"
  let ?i = "new_uuid (map a_id (addresses db))"
  let ?a = "\<lparr>a_id = ?i, a_data = s_address schema\<rparr>"
  let ?n = "new_uuid (map o_id (orders db))"
  have ord: "order = \<lparr>o_id = ?n, o_user_id = s_user_id schema, o_address_id = Some ?i,
                       o_order_status = TRANSMITTED\<rparr>"
    and db': "db' = db\<lparr>addresses := addresses db @ [?a], orders := orders db @ [order]\<rparr>"
    using run by (auto simp: create_order_def create_address_def Let_def)
  have addr: "find (\<lambda>a. a_id a = ?i) (addresses db') = Some ?a"
    unfolding db' by (simp add: find_snoc_new new_uuid_fresh_row)
  have got: "get_order_by_id (o_id order) db' = Some order"
    unfolding get_order_by_id_def db' by (simp add: find_snoc_new new_uuid_fresh_row ord)
  show ?thesis
    using ord db' addr got by simp
qed

theorem create_order_transmitted_witness:
  "create_order \<lparr>s_user_id = 7, s_address = ''2 Side Street''\<rparr> scenario_store =
     (\<lparr>o_id = 2, o_user_id = 7, o_address_id = Some 2, o_order_status = TRANSMITTED\<rparr>,
      scenario_store\<lparr>addresses := addresses scenario_store @
                       [\<lparr>a_id = 2, a_data = ''2 Side Street''\<rparr>],
                     orders := orders scenario_store @
                       [\<lparr>o_id = 2, o_user_id = 7, o_address_id = Some 2,
                         o_order_status = TRANSMITTED\<rparr>]\<rparr>) \<and>
   get_order_by_id 2
     (scenario_store\<lparr>addresses := addresses scenario_store @
                       [\<lparr>a_id = 2, a_data = ''2 Side Street''\<rparr>],
                     orders := orders scenario_store @
                       [\<lparr>o_id = 2, o_user_id = 7, o_address_id = Some 2,
                         o_order_status = TRANSMITTED\<rparr>]\<rparr>) =
     Some \<lparr>o_id = 2, o_user_id = 7, o_address_id = Some 2, o_order_status = TRANSMITTED\<rparr>"
proof -
  have run: "create_order \<lparr>s_user_id = 7, s_address = ''2 Side Street''\<rparr> scenario_store =
     (\<lparr>o_id = 2, o_user_id = 7, o_address_id = Some 2, o_order_status = TRANSMITTED\<rparr>,
      scenario_store\<lparr>addresses := addresses scenario_store @
                       [\<lparr>a_id = 2, a_data = ''2 Side Street''\<rparr>],
                     orders := orders scenario_store @
                       [\<lparr>o_id = 2, o_user_id = 7, o_address_id = Some 2,
                         o_order_status = TRANSMITTED\<rparr>]\<rparr>)"
    by (simp add: create_order_def create_address_def scenario_store_eq new_uuid_def Let_def)
  show ?thesis
    using create_order_transmitted [OF run] run
    by simp
qed

text \<open>
  C7: for an identifier that no order has, \<open>get_order_by_id\<close> returns \<open>None\<close>. The
  function has no raising branch.
\<close>

theorem get_order_by_id_not_found:
  "\<forall>r\<in>set (orders db). o_id r \<noteq> order_id \<Longrightarrow> get_order_by_id order_id db = None"
  by (simp add: get_order_by_id_def find_None_iff)

theorem get_order_by_id_not_found_witness:
  "get_order_by_id 2 scenario_store = None"
  by (rule get_order_by_id_not_found) (simp add: scenario_store_eq)

text \<open>
  C9: without a status \<open>get_all_orders\<close> returns all orders; with a status it returns
  the orders that have this status, and no others.
\<close>

theorem get_all_orders_status:
  "get_all_orders db None = orders db \<and>
   get_all_orders db (Some status) = filter (\<lambda>r. o_order_status r = status) (orders db) \<and>
   set (get_all_orders db (Some status)) = {r \<in> set (orders db). o_order_status r = status}"
  by (simp add: get_all_orders_def)

theorem get_all_orders_status_witness:
  "get_all_orders scenario_store None = [scenario_order] \<and>
   get_all_orders scenario_store (Some TRANSMITTED) = [scenario_order] \<and>
   get_all_orders scenario_store (Some (OTHER_STATUS ''PREPARING'')) = []"
  using get_all_orders_status [of scenario_store TRANSMITTED]
    get_all_orders_status [of scenario_store "OTHER_STATUS ''PREPARING''"]
  by (simp add: scenario_store_eq scenario_order_eq)

text \<open>
  C6: \<open>delete_order_by_id\<close> removes the order with the identifier if there is one, so
  that it is no longer found; it leaves the store as it is if there is none; and deleting
  twice is deleting once.
\<close>

theorem delete_order_by_id_idempotent:
  "(order_id \<in> o_id ` set (orders db) \<longrightarrow>
      orders (delete_order_by_id order_id db) = filter (\<lambda>r. o_id r \<noteq> order_id) (orders db) \<and>
      get_order_by_id order_id (delete_order_by_id order_id db) = None) \<and>
   (order_id \<notin> o_id ` set (orders db) \<longrightarrow> delete_order_by_id order_id db = db) \<and>
   delete_order_by_id order_id (delete_order_by_id order_id db) = delete_order_by_id order_id db"
proof (cases "get_order_by_id order_id db")
  case None
  then have "order_id \<notin> o_id ` set (orders db)"
    by (auto simp: get_order_by_id_def find_None_iff)
  with None show ?thesis by (simp add: delete_order_by_id_def)
next
  case (Some entity)
  then have ent: "o_id entity = order_id" "entity \<in> set (orders db)"
    by (auto simp: get_order_by_id_def find_Some_iff)
  have gone: "get_order_by_id order_id (db_delete_order entity db) = None"
    using Some by (rule get_order_by_id_after_delete)
  have "order_id \<in> o_id ` set (orders db)" using ent by auto
  moreover have "orders (delete_order_by_id order_id db) =
      filter (\<lambda>r. o_id r \<noteq> order_id) (orders db)"
    using Some ent by (simp add: delete_order_by_id_def db_delete_order_def)
  ultimately show ?thesis
    using Some gone by (simp add: delete_order_by_id_def)
qed

theorem delete_order_by_id_idempotent_witness:
  "orders (delete_order_by_id 1 scenario_store) = [] \<and>
   delete_order_by_id 2 scenario_store = scenario_store \<and>
   delete_order_by_id 1 (delete_order_by_id 1 scenario_store) = delete_order_by_id 1 scenario_store"
  using delete_order_by_id_idempotent [of 1 scenario_store]
    delete_order_by_id_idempotent [of 2 scenario_store]
  by (simp add: scenario_store_eq)

subsection \<open>Pizzas\<close>

text \<open>
  C3: called with \<open>None\<close> for the pizza type, \<open>create_pizza\<close> stores a pizza without a
  type and then raises \<open>AttributeError\<close>; it does not return the pizza.
\<close>

theorem create_pizza_none_raises:
  "create_pizza None db =
     (Inl AttributeError,
      db\<lparr>pizzas := pizzas db @ [\<lparr>p_id = new_uuid (map p_id (pizzas db)),
                                   p_pizza_type_id = None, p_order_id = None\<rparr>]\<rparr>)"
  by (simp add: create_pizza_def)

text \<open>
  C8: for an order and a pizza type, \<open>add_pizza_to_order\<close> returns a pizza that
  references the pizza type and belongs to the order, and the order has one pizza more
  than before.
\<close>

theorem add_pizza_to_order_one_more:
  "add_pizza_to_order order (Some pizza_type) db = (result, db') \<Longrightarrow>
     \<exists>pizza. result = Inr pizza \<and>
       p_pizza_type_id pizza = Some (pt_id pizza_type) \<and>
       pizza \<in> set (order_pizzas (o_id order) db') \<and>
       length (order_pizzas (o_id order) db') = length (order_pizzas (o_id order) db) + 1"
proof -
  assume run: "add_pizza_to_order order (Some pizza_type) db = (result, db')"
  let ?n = "new_uuid (map p_id (pizzas db))"
  let ?e = "\<lparr>p_id = ?n, p_pizza_type_id = Some (pt_id pizza_type), p_order_id = None\<rparr>"
  let ?f = "\<lambda>p. if p_id p = ?n then p\<lparr>p_order_id := Some (o_id order)\<rparr> else p"
  have res: "result = Inr (?e\<lparr>p_order_id := Some (o_id order)\<rparr>)"
    and db': "db' = db\<lparr>pizzas := map ?f (pizzas db @ [?e])\<rparr>"
    using run by (auto simp: add_pizza_to_order_def create_pizza_def Let_def)
  have old: "map ?f (pizzas db) = pizzas db"
    by (rule map_idI) (simp add: new_uuid_fresh_row)
  have ps: "pizzas db' = pizzas db @ [?e\<lparr>p_order_id := Some (o_id order)\<rparr>]"
    using db' old by simp
  show ?thesis
    using res ps by (simp add: order_pizzas_def)
qed

theorem add_pizza_to_order_one_more_witness:
  "add_pizza_to_order scenario_order (Some margherita) scenario_store =
     (Inr \<lparr>p_id = 2, p_pizza_type_id = Some 1, p_order_id = Some 1\<rparr>,
      scenario_store\<lparr>pizzas := pizzas scenario_store @
        [\<lparr>p_id = 2, p_pizza_type_id = Some 1, p_order_id = Some 1\<rparr>]\<rparr>) \<and>
   length (order_pizzas 1 (scenario_store\<lparr>pizzas := pizzas scenario_store @
        [\<lparr>p_id = 2, p_pizza_type_id = Some 1, p_order_id = Some 1\<rparr>]\<rparr>)) =
     length (order_pizzas 1 scenario_store) + 1"
proof -
  have run: "add_pizza_to_order scenario_order (Some margherita) scenario_store =
     (Inr \<lparr>p_id = 2, p_pizza_type_id = Some 1, p_order_id = Some 1\<rparr>,
      scenario_store\<lparr>pizzas := pizzas scenario_store @
        [\<lparr>p_id = 2, p_pizza_type_id = Some 1, p_order_id = Some 1\<rparr>]\<rparr>)"
    by (simp add: add_pizza_to_order_def create_pizza_def scenario_store_eq scenario_order_eq
        margherita_def new_uuid_def Let_def)
  show ?thesis
    using add_pizza_to_order_one_more [OF run] run
    by (simp add: scenario_order_eq margherita_def)
qed

text \<open>
  C5: \<open>delete_pizza_from_order\<close> returns \<open>True\<close> exactly if a pizza with the identifier
  belongs to the order; then this pizza is deleted and nothing else. Otherwise, also if
  the pizza belongs to another order, the store is unchanged.
\<close>

theorem delete_pizza_from_order_belongs:
  "delete_pizza_from_order order pizza_id db = (deleted, db') \<Longrightarrow>
     (deleted \<longleftrightarrow> (\<exists>p\<in>set (pizzas db). p_id p = pizza_id \<and> p_order_id p = Some (o_id order))) \<and>
     (deleted \<longrightarrow> db' = db\<lparr>pizzas := filter (\<lambda>p. p_id p \<noteq> pizza_id) (pizzas db)\<rparr>) \<and>
     (\<not> deleted \<longrightarrow> db' = db)"
proof (cases "find (\<lambda>p. p_order_id p = Some (o_id order) \<and> p_id p = pizza_id) (pizzas db)")
  case None
  assume "delete_pizza_from_order order pizza_id db = (deleted, db')"
  with None have "\<not> deleted" "db' = db" by (simp_all add: delete_pizza_from_order_def)
  moreover from None have "\<not> (\<exists>p\<in>set (pizzas db). p_id p = pizza_id \<and> p_order_id p = Some (o_id order))"
    by (auto simp: find_None_iff)
  ultimately show ?thesis by simp
next
  case (Some entity)
  assume "delete_pizza_from_order order pizza_id db = (deleted, db')"
  with Some have r: "deleted" "db' = db\<lparr>pizzas := filter (\<lambda>p. p_id p \<noteq> p_id entity) (pizzas db)\<rparr>"
    by (auto simp: delete_pizza_from_order_def)
  from Some have e: "entity \<in> set (pizzas db)" "p_id entity = pizza_id"
      "p_order_id entity = Some (o_id order)"
    by (auto simp: find_Some_iff)
  from e have "\<exists>p\<in>set (pizzas db). p_id p = pizza_id \<and> p_order_id p = Some (o_id order)" by auto
  with r e show ?thesis by simp
qed

theorem delete_pizza_from_order_belongs_witness:
  "delete_pizza_from_order scenario_order 1 scenario_store =
     (True, scenario_store\<lparr>pizzas := []\<rparr>) \<and>
   delete_pizza_from_order (scenario_order\<lparr>o_id := 2\<rparr>) 1 scenario_store =
     (False, scenario_store)"
proof -
  have own: "delete_pizza_from_order scenario_order 1 scenario_store =
      (True, scenario_store\<lparr>pizzas := []\<rparr>)"
    by (simp add: delete_pizza_from_order_def scenario_store_eq scenario_order_eq)
  have other: "delete_pizza_from_order (scenario_order\<lparr>o_id := 2\<rparr>) 1 scenario_store =
      (False, scenario_store)"
    by (simp add: delete_pizza_from_order_def scenario_store_eq scenario_order_eq)
  show ?thesis
    using delete_pizza_from_order_belongs [OF own] delete_pizza_from_order_belongs [OF other]
      own other
    by simp
qed

subsection \<open>Beverage quantities\<close>

text \<open>
  C4: if no beverage-quantity row has the two keys, \<open>update_beverage_quantity_of_order\<close>
  returns \<open>None\<close> and the store is unchanged. Otherwise the first row with the two keys
  gets the new quantity, no other row changes, and the updated row is returned.
\<close>

theorem update_beverage_quantity_of_order_found_or_null:
  "update_beverage_quantity_of_order order_id beverage_id new_quantity db = (result, db') \<Longrightarrow>
   (if \<exists>q\<in>set (order_beverage_quantities db).
          obq_order_id q = order_id \<and> obq_beverage_id q = beverage_id
    then \<exists>i<length (order_beverage_quantities db).
           obq_order_id (order_beverage_quantities db ! i) = order_id \<and>
           obq_beverage_id (order_beverage_quantities db ! i) = beverage_id \<and>
           (\<forall>j<i. \<not> (obq_order_id (order_beverage_quantities db ! j) = order_id \<and>
                      obq_beverage_id (order_beverage_quantities db ! j) = beverage_id)) \<and>
           result = Some ((order_beverage_quantities db ! i)\<lparr>obq_quantity := new_quantity\<rparr>) \<and>
           db' = db\<lparr>order_beverage_quantities :=
                      (order_beverage_quantities db)
                        [i := (order_beverage_quantities db ! i)\<lparr>obq_quantity := new_quantity\<rparr>]\<rparr>
    else result = None \<and> db' = db)"
proof -
  assume run: "update_beverage_quantity_of_order order_id beverage_id new_quantity db = (result, db')"
  let ?P = "\<lambda>q. order_id = obq_order_id q \<and> beverage_id = obq_beverage_id q"
  let ?qs = "order_beverage_quantities db"
  show ?thesis
  proof (cases "find ?P ?qs")
    case None
    then have "\<not> (\<exists>q\<in>set ?qs. obq_order_id q = order_id \<and> obq_beverage_id q = beverage_id)"
      by (auto simp: find_None_iff)
    moreover from None run have "result = None \<and> db' = db"
      by (auto simp: update_beverage_quantity_of_order_def)
    ultimately show ?thesis by simp
  next
    case (Some q)
    then obtain i where i: "i < length ?qs" "?P (?qs ! i)" "q = ?qs ! i" "\<forall>j<i. \<not> ?P (?qs ! j)"
      by (auto simp: find_Some_iff)
    have upd: "set_quantity_of_first order_id beverage_id new_quantity ?qs =
                 ?qs[i := (?qs ! i)\<lparr>obq_quantity := new_quantity\<rparr>]"
      using i(1,2,4) by (rule set_quantity_of_first_nth)
    from Some run have res: "result = Some (q\<lparr>obq_quantity := new_quantity\<rparr>)"
        "db' = db\<lparr>order_beverage_quantities :=
                   set_quantity_of_first order_id beverage_id new_quantity ?qs\<rparr>"
      by (auto simp: update_beverage_quantity_of_order_def)
    have ex: "\<exists>q\<in>set ?qs. obq_order_id q = order_id \<and> obq_beverage_id q = beverage_id"
      using i(1,2) nth_mem by fastforce
    have "\<exists>i<length ?qs.
           obq_order_id (?qs ! i) = order_id \<and> obq_beverage_id (?qs ! i) = beverage_id \<and>
           (\<forall>j<i. \<not> (obq_order_id (?qs ! j) = order_id \<and> obq_beverage_id (?qs ! j) = beverage_id)) \<and>
           result = Some ((?qs ! i)\<lparr>obq_quantity := new_quantity\<rparr>) \<and>
           db' = db\<lparr>order_beverage_quantities := ?qs[i := (?qs ! i)\<lparr>obq_quantity := new_quantity\<rparr>]\<rparr>"
    proof (intro exI[of _ i] conjI)
      show "i < length ?qs" by (rule i(1))
      show "obq_order_id (?qs ! i) = order_id" using i(2) by simp
      show "obq_beverage_id (?qs ! i) = beverage_id" using i(2) by simp
      show "\<forall>j<i. \<not> (obq_order_id (?qs ! j) = order_id \<and> obq_beverage_id (?qs ! j) = beverage_id)"
        using i(4) by auto
      show "result = Some ((?qs ! i)\<lparr>obq_quantity := new_quantity\<rparr>)" using res(1) i(3) by simp
      show "db' = db\<lparr>order_beverage_quantities := ?qs[i := (?qs ! i)\<lparr>obq_quantity := new_quantity\<rparr>]\<rparr>"
        using res(2) upd by simp
    qed
    with ex show ?thesis by simp
  qed
qed

theorem update_beverage_quantity_of_order_found_or_null_witness:
  "update_beverage_quantity_of_order 1 1 5 scenario_store =
     (Some \<lparr>obq_order_id = 1, obq_beverage_id = 1, obq_quantity = 5\<rparr>,
      scenario_store\<lparr>order_beverage_quantities :=
        [\<lparr>obq_order_id = 1, obq_beverage_id = 1, obq_quantity = 5\<rparr>]\<rparr>) \<and>
   update_beverage_quantity_of_order 1 2 5 scenario_store = (None, scenario_store)"
proof -
  have found: "update_beverage_quantity_of_order 1 1 5 scenario_store =
     (Some \<lparr>obq_order_id = 1, obq_beverage_id = 1, obq_quantity = 5\<rparr>,
      scenario_store\<lparr>order_beverage_quantities :=
        [\<lparr>obq_order_id = 1, obq_beverage_id = 1, obq_quantity = 5\<rparr>]\<rparr>)"
    by (simp add: update_beverage_quantity_of_order_def scenario_store_eq)
  have missing: "update_beverage_quantity_of_order 1 2 5 scenario_store = (None, scenario_store)"
    by (simp add: update_beverage_quantity_of_order_def scenario_store_eq)
  show ?thesis
    using update_beverage_quantity_of_order_found_or_null [OF found]
      update_beverage_quantity_of_order_found_or_null [OF missing] found missing
    by simp
qed

end
